theory Spec2Isabelle
  imports Main "HOL-Library.Word"
begin

section \<open>The Tencent translation client (translate/tencent.py)\<close>

text \<open>
  A shallow embedding of \<^verbatim>\<open>src/open_llm_vtuber/translate/tencent.py\<close>: the helper
  \<^verbatim>\<open>sign\<close>, the class \<^verbatim>\<open>TencentTranslate\<close> with \<^verbatim>\<open>create_signature\<close>,
  \<^verbatim>\<open>_prepare_headers\<close> and \<^verbatim>\<open>translate\<close>.

  Conventions of the model.
  \<^item> A Python \<^verbatim>\<open>str\<close> is a \<open>string\<close>; a \<open>char\<close> stands for the code point of the same
    number, so the model covers text up to U+00FF. Every such string has a UTF-8
    encoding, so \<^verbatim>\<open>.encode("utf-8")\<close> never raises in the model.
  \<^item> A Python \<^verbatim>\<open>bytes\<close> value is a list of 8-bit words.
  \<^item> A Python \<^verbatim>\<open>int\<close> is an \<open>int\<close>.
  \<^item> \<^verbatim>\<open>hashlib.sha256\<close> and \<^verbatim>\<open>hmac.new\<close> belong to the Python standard library, not to
    this repository. They are taken as parameters (the record \<open>hashlib\<close>), so every
    result below holds for whatever digests the library computes.
\<close>

subsection \<open>Bytes, UTF-8, hexadecimal digests\<close>

type_synonym byte = "8 word"

text \<open>\<^verbatim>\<open>s.encode("utf-8")\<close> for code points below U+0100: one byte below U+0080, two above.\<close>

definition utf8_char :: "char \<Rightarrow> byte list" where
  "utf8_char c =
     (let n = (of_char c :: nat)
      in if n < 128 then [of_nat n]
         else [of_nat (192 + n div 64), of_nat (128 + n mod 64)])"

definition utf8 :: "string \<Rightarrow> byte list" where
  "utf8 s = concat (map utf8_char s)"

definition hex_chars :: string where
  "hex_chars = ''0123456789abcdef''"

definition hex_digit :: "nat \<Rightarrow> char" where
  "hex_digit n = hex_chars ! (n mod 16)"

definition hex_byte :: "byte \<Rightarrow> string" where
  "hex_byte b = [hex_digit (unat b div 16), hex_digit (unat b mod 16)]"

text \<open>\<^verbatim>\<open>.hexdigest()\<close>: two lowercase hexadecimal digits for each byte of \<^verbatim>\<open>.digest()\<close>.\<close>

definition hexdigest :: "byte list \<Rightarrow> string" where
  "hexdigest bs = concat (map hex_byte bs)"

text \<open>The two library functions the module calls, as parameters.\<close>

record hashlib =
  sha256 :: "byte list \<Rightarrow> byte list"
    \<comment> \<open>\<^verbatim>\<open>hashlib.sha256(data).digest()\<close>\<close>
  hmac_sha256 :: "byte list \<Rightarrow> byte list \<Rightarrow> byte list"
    \<comment> \<open>\<^verbatim>\<open>hmac.new(key, msg, hashlib.sha256).digest()\<close>\<close>

subsection \<open>Strings: \<^verbatim>\<open>str(int)\<close>, \<^verbatim>\<open>"\n".join\<close>, \<^verbatim>\<open>str.lower\<close>\<close>

definition digit_char :: "nat \<Rightarrow> char" where
  "digit_char n = ''0123456789'' ! (n mod 10)"

fun digits10 :: "nat \<Rightarrow> string" where
  "digits10 n = (if n < 10 then [digit_char n] else digits10 (n div 10) @ [digit_char (n mod 10)])"

declare digits10.simps [simp del]

text \<open>\<^verbatim>\<open>str(i)\<close>, also what an f-string writes for an \<^verbatim>\<open>int\<close>.\<close>

definition str_int :: "int \<Rightarrow> string" where
  "str_int i = (if i < 0 then CHR ''-'' # digits10 (nat (- i)) else digits10 (nat i))"

fun join :: "string \<Rightarrow> string list \<Rightarrow> string" where
  "join sep [] = []"
| "join sep [x] = x"
| "join sep (x # y # ys) = x @ sep @ join sep (y # ys)"

text \<open>
  \<^verbatim>\<open>str.lower\<close> on code points below U+0100: the upper-case letters are A to Z and
  U+00C0 to U+00DE without the multiplication sign U+00D7; each moves up by 32.
\<close>

definition upper_chars :: "char list" where
  "upper_chars = ''ABCDEFGHIJKLMNOPQRSTUVWXYZ'' @
     [CHR 0xC0, CHR 0xC1, CHR 0xC2, CHR 0xC3, CHR 0xC4, CHR 0xC5, CHR 0xC6, CHR 0xC7,
      CHR 0xC8, CHR 0xC9, CHR 0xCA, CHR 0xCB, CHR 0xCC, CHR 0xCD, CHR 0xCE, CHR 0xCF,
      CHR 0xD0, CHR 0xD1, CHR 0xD2, CHR 0xD3, CHR 0xD4, CHR 0xD5, CHR 0xD6,
      CHR 0xD8, CHR 0xD9, CHR 0xDA, CHR 0xDB, CHR 0xDC, CHR 0xDD, CHR 0xDE]"

definition lower_chars :: "char list" where
  "lower_chars = ''abcdefghijklmnopqrstuvwxyz'' @
     [CHR 0xE0, CHR 0xE1, CHR 0xE2, CHR 0xE3, CHR 0xE4, CHR 0xE5, CHR 0xE6, CHR 0xE7,
      CHR 0xE8, CHR 0xE9, CHR 0xEA, CHR 0xEB, CHR 0xEC, CHR 0xED, CHR 0xEE, CHR 0xEF,
      CHR 0xF0, CHR 0xF1, CHR 0xF2, CHR 0xF3, CHR 0xF4, CHR 0xF5, CHR 0xF6,
      CHR 0xF8, CHR 0xF9, CHR 0xFA, CHR 0xFB, CHR 0xFC, CHR 0xFD, CHR 0xFE]"

definition lower_char :: "char \<Rightarrow> char" where
  "lower_char c = (case map_of (zip upper_chars lower_chars) c of Some d \<Rightarrow> d | None \<Rightarrow> c)"

definition lower :: "string \<Rightarrow> string" where
  "lower s = map lower_char s"

subsection \<open>The client object\<close>

record TencentTranslate =
  secret_id :: string
  secret_key :: string
  token :: string
  region :: string
  service :: string
  host :: string
  version :: string
  action :: string
  algorithm :: string
  source_lang :: string
  target_lang :: string

text \<open>
  \<^verbatim>\<open>__init__(secret_id, secret_key, token, region, source_lang, target_lang)\<close>; the defaults
  of the signature are \<^verbatim>\<open>token=""\<close>, \<^verbatim>\<open>region="ap-guangzhou"\<close>, \<^verbatim>\<open>source_lang="zh"\<close>,
  \<^verbatim>\<open>target_lang="ja"\<close>.
\<close>

definition init :: "string \<Rightarrow> string \<Rightarrow> string \<Rightarrow> string \<Rightarrow> string \<Rightarrow> string \<Rightarrow> TencentTranslate" where
  "init sid skey tok reg src tgt =
     \<lparr> secret_id = sid, secret_key = skey, token = tok, region = reg,
       service = ''tmt'', host = ''tmt.tencentcloudapi.com'', version = ''2018-03-21'',
       action = ''TextTranslate'', algorithm = ''TC3-HMAC-SHA256'',
       source_lang = src, target_lang = tgt \<rparr>"

definition init_default :: "string \<Rightarrow> string \<Rightarrow> TencentTranslate" where
  "init_default sid skey = init sid skey '''' ''ap-guangzhou'' ''zh'' ''ja''"

subsection \<open>\<^verbatim>\<open>sign\<close> and \<^verbatim>\<open>create_signature\<close>\<close>

definition sign :: "hashlib \<Rightarrow> byte list \<Rightarrow> string \<Rightarrow> byte list" where
  "sign L key msg = hmac_sha256 L key (utf8 msg)"

definition create_signature :: "hashlib \<Rightarrow> TencentTranslate \<Rightarrow> string \<Rightarrow> string \<Rightarrow> byte list" where
  "create_signature L self date srv =
     (let secret_date = sign L (utf8 (''TC3'' @ secret_key self)) date;
          secret_service = sign L secret_date srv;
          secret_signing = sign L secret_service ''tc3_request''
      in secret_signing)"

subsection \<open>\<^verbatim>\<open>_prepare_headers\<close>\<close>

text \<open>
  The local variables of \<^verbatim>\<open>_prepare_headers\<close>, each as a function of what it is computed
  from, in the order of the source.
\<close>

definition ct :: string where
  "ct = ''application/json; charset=utf-8''"

definition canonical_uri :: string where
  "canonical_uri = ''/''"

definition canonical_querystring :: string where
  "canonical_querystring = ''''"

definition canonical_headers :: "TencentTranslate \<Rightarrow> string" where
  "canonical_headers self =
     ''content-type:'' @ ct @ ''\<newline>host:'' @ host self @
     ''\<newline>x-tc-action:'' @ lower (action self) @ ''\<newline>''"

definition signed_headers :: string where
  "signed_headers = ''content-type;host;x-tc-action''"

definition hashed_request_payload :: "hashlib \<Rightarrow> string \<Rightarrow> string" where
  "hashed_request_payload L payload = hexdigest (sha256 L (utf8 payload))"

definition canonical_request :: "hashlib \<Rightarrow> TencentTranslate \<Rightarrow> string \<Rightarrow> string" where
  "canonical_request L self payload =
     join ''\<newline>''
       [''POST'',
        canonical_uri,
        canonical_querystring,
        canonical_headers self,
        signed_headers,
        hashed_request_payload L payload]"

definition credential_scope :: "TencentTranslate \<Rightarrow> string \<Rightarrow> string" where
  "credential_scope self date = date @ ''/'' @ service self @ ''/tc3_request''"

definition hashed_canonical_request :: "hashlib \<Rightarrow> TencentTranslate \<Rightarrow> string \<Rightarrow> string" where
  "hashed_canonical_request L self payload =
     hexdigest (sha256 L (utf8 (canonical_request L self payload)))"

definition string_to_sign :: "hashlib \<Rightarrow> TencentTranslate \<Rightarrow> string \<Rightarrow> int \<Rightarrow> string \<Rightarrow> string" where
  "string_to_sign L self payload timestamp date =
     algorithm self @ ''\<newline>'' @ str_int timestamp @ ''\<newline>'' @
     credential_scope self date @ ''\<newline>'' @ hashed_canonical_request L self payload"

definition signature :: "hashlib \<Rightarrow> TencentTranslate \<Rightarrow> string \<Rightarrow> int \<Rightarrow> string \<Rightarrow> string" where
  "signature L self payload timestamp date =
     (let secret_signing = create_signature L self date (service self)
      in hexdigest (hmac_sha256 L secret_signing (utf8 (string_to_sign L self payload timestamp date))))"

definition authorization :: "hashlib \<Rightarrow> TencentTranslate \<Rightarrow> string \<Rightarrow> int \<Rightarrow> string \<Rightarrow> string" where
  "authorization L self payload timestamp date =
     algorithm self @ '' Credential='' @ secret_id self @ ''/'' @ credential_scope self date @
     '', SignedHeaders='' @ signed_headers @
     '', Signature='' @ signature L self payload timestamp date"

text \<open>
  The dict \<^verbatim>\<open>headers\<close> is a map. \<^verbatim>\<open>if self.region:\<close> and \<^verbatim>\<open>if self.token:\<close> test a string
  for being non-empty.
\<close>

definition prepare_headers ::
  "hashlib \<Rightarrow> TencentTranslate \<Rightarrow> string \<Rightarrow> int \<Rightarrow> string \<Rightarrow> (string \<rightharpoonup> string)" where
  "prepare_headers L self payload timestamp date =
     (let headers0 =
            [''Authorization'' \<mapsto> authorization L self payload timestamp date,
             ''Content-Type'' \<mapsto> ct,
             ''Host'' \<mapsto> host self,
             ''X-TC-Action'' \<mapsto> action self,
             ''X-TC-Timestamp'' \<mapsto> str_int timestamp,
             ''X-TC-Version'' \<mapsto> version self];
          headers1 = (if region self \<noteq> [] then headers0(''X-TC-Region'' \<mapsto> region self) else headers0);
          headers2 = (if token self \<noteq> [] then headers1(''X-TC-Token'' \<mapsto> token self) else headers1)
      in headers2)"

subsection \<open>Python values, exceptions\<close>

text \<open>
  What \<^verbatim>\<open>response.json()\<close> returns and what \<^verbatim>\<open>json.dumps\<close> takes: \<^verbatim>\<open>None\<close>, \<^verbatim>\<open>bool\<close>,
  \<^verbatim>\<open>int\<close>, \<^verbatim>\<open>float\<close> (kept as its \<^verbatim>\<open>repr\<close>), \<^verbatim>\<open>str\<close>, \<^verbatim>\<open>list\<close> and \<^verbatim>\<open>dict\<close> with string
  keys (an association list read with \<open>map_of\<close>).
\<close>

datatype json =
    JNull
  | JBool bool
  | JInt int
  | JFloat string
  | JStr string
  | JArr "json list"
  | JObj "(string \<times> json) list"

text \<open>
  The exceptions of class \<^verbatim>\<open>Exception\<close> that can arise in \<^verbatim>\<open>translate\<close>. \<open>AttributeError\<close>
  carries the type name of the object that has no attribute \<^verbatim>\<open>get\<close>; \<open>TransportError\<close> and
  \<open>JSONDecodeError\<close> carry whatever the HTTP client reports.
\<close>

datatype exn =
    ValueError string
  | AttributeError string
  | TransportError string
  | JSONDecodeError string

fun type_name :: "json \<Rightarrow> string" where
  "type_name JNull = ''NoneType''"
| "type_name (JBool b) = ''bool''"
| "type_name (JInt i) = ''int''"
| "type_name (JFloat r) = ''float''"
| "type_name (JStr s) = ''str''"
| "type_name (JArr xs) = ''list''"
| "type_name (JObj kvs) = ''dict''"

text \<open>\<^verbatim>\<open>obj.get(key, default)\<close>: only a dict has the method; on anything else the attribute
  lookup raises \<^verbatim>\<open>AttributeError\<close>.\<close>

fun dict_get :: "json \<Rightarrow> string \<Rightarrow> json \<Rightarrow> exn + json" where
  "dict_get (JObj kvs) key dflt =
     Inr (case map_of kvs key of None \<Rightarrow> dflt | Some v \<Rightarrow> v)"
| "dict_get obj key dflt = Inl (AttributeError (type_name obj))"

subsection \<open>\<^verbatim>\<open>json.dumps\<close>\<close>

definition dq :: string where
  "dq = [CHR 0x22]"

text \<open>
  The string encoder of \<^verbatim>\<open>json.dumps\<close> with its default \<^verbatim>\<open>ensure_ascii=True\<close>: backslash
  and double quote get a backslash, the five control characters with a short escape get
  it, printable ASCII stays, everything else becomes \<^verbatim>\<open>\u00XX\<close>.
\<close>

definition escape_char :: "char \<Rightarrow> string" where
  "escape_char c =
     (let n = (of_char c :: nat)
      in if c = CHR 0x5C then [CHR 0x5C, CHR 0x5C]
         else if c = CHR 0x22 then [CHR 0x5C, CHR 0x22]
         else if c = CHR 0x08 then [CHR 0x5C, CHR ''b'']
         else if c = CHR 0x0C then [CHR 0x5C, CHR ''f'']
         else if c = CHR 0x0A then [CHR 0x5C, CHR ''n'']
         else if c = CHR 0x0D then [CHR 0x5C, CHR ''r'']
         else if c = CHR 0x09 then [CHR 0x5C, CHR ''t'']
         else if 32 \<le> n \<and> n \<le> 126 then [c]
         else [CHR 0x5C, CHR ''u'', CHR ''0'', CHR ''0'', hex_digit (n div 16), hex_digit (n mod 16)])"

definition encode_str :: "string \<Rightarrow> string" where
  "encode_str s = dq @ concat (map escape_char s) @ dq"

text \<open>\<^verbatim>\<open>json.dumps(obj)\<close> with the default separators \<^verbatim>\<open>", "\<close> and \<^verbatim>\<open>": "\<close>; a dict is written
  in insertion order.\<close>

fun json_dumps :: "json \<Rightarrow> string" where
  "json_dumps JNull = ''null''"
| "json_dumps (JBool b) = (if b then ''true'' else ''false'')"
| "json_dumps (JInt i) = str_int i"
| "json_dumps (JFloat r) = r"
| "json_dumps (JStr s) = encode_str s"
| "json_dumps (JArr xs) = ''['' @ join '', '' (map json_dumps xs) @ '']''"
| "json_dumps (JObj kvs) =
     ''{'' @ join '', '' (map (\<lambda>(k, v). encode_str k @ '': '' @ json_dumps v) kvs) @ ''}''"

subsection \<open>The UTC date of a timestamp\<close>

text \<open>
  \<^verbatim>\<open>datetime.fromtimestamp(timestamp, timezone.utc).strftime("%Y-%m-%d")\<close> is library code.
  Its result is the date of the proleptic Gregorian calendar on which the second
  \<open>timestamp\<close> after 1970-01-01T00:00:00Z falls, computed here from the day number as
  CPython's \<^verbatim>\<open>_ord2ymd\<close> does (day 1 is 0001-01-01, day 719163 is 1970-01-01). A
  \<^verbatim>\<open>datetime\<close> holds the years 1 to 9999 only; outside them the call raises. \<^verbatim>\<open>%Y\<close>, \<^verbatim>\<open>%m\<close>
  and \<^verbatim>\<open>%d\<close> are written with four, two and two digits; for a year below 1000, which no
  clock set after 1970 shows, the C library of the platform decides whether \<^verbatim>\<open>%Y\<close> is
  padded, and the model pads.
\<close>

definition days_before_month :: "int list" where
  "days_before_month = [-1, 0, 31, 59, 90, 120, 151, 181, 212, 243, 273, 304, 334]"

definition days_in_month :: "int list" where
  "days_in_month = [-1, 31, 28, 31, 30, 31, 30, 31, 31, 30, 31, 30, 31]"

definition is_leap :: "int \<Rightarrow> bool" where
  "is_leap year = (if year mod 100 = 0 then year mod 400 = 0 else year mod 4 = 0)"

definition ord2ymd :: "int \<Rightarrow> int \<times> int \<times> int" where
  "ord2ymd ordinal =
     (let n = ordinal - 1;
          n400 = n div 146097; r400 = n mod 146097;
          n100 = r400 div 36524; r100 = r400 mod 36524;
          n4 = r100 div 1461; r4 = r100 mod 1461;
          n1 = r4 div 365; r1 = r4 mod 365;
          year = n400 * 400 + 1 + n100 * 100 + n4 * 4 + n1
      in if n1 = 4 \<or> n100 = 4 then (year - 1, 12, 31)
         else
           (let leapyear = is_leap year;
                month = (r1 + 50) div 32;
                preceding = days_before_month ! nat month + of_bool (month > 2 \<and> leapyear)
            in if preceding > r1
               then (let month' = month - 1;
                         preceding' = preceding - (days_in_month ! nat month' + of_bool (month' = 2 \<and> leapyear))
                     in (year, month', r1 - preceding' + 1))
               else (year, month, r1 - preceding + 1)))"

definition zfill :: "nat \<Rightarrow> string \<Rightarrow> string" where
  "zfill width s = replicate (width - length s) (CHR ''0'') @ s"

fun strftime_ymd :: "int \<times> int \<times> int \<Rightarrow> string" where
  "strftime_ymd (y, m, d) =
     zfill 4 (str_int y) @ ''-'' @ zfill 2 (str_int m) @ ''-'' @ zfill 2 (str_int d)"


definition utc_date :: "int \<Rightarrow> exn + string" where
  "utc_date timestamp =
     (let ordinal = 719163 + timestamp div 86400
      in if ordinal < 1 \<or> 3652059 < ordinal then Inl (ValueError ''year out of range'')
         else Inr (strftime_ymd (ord2ymd ordinal)))"

subsection \<open>\<^verbatim>\<open>translate\<close>\<close>

text \<open>
  The world outside the module: the clock, read once as \<^verbatim>\<open>int(time.time())\<close>, and the
  HTTP client. \<^verbatim>\<open>httpx.post(url, headers, data)\<close> either raises or returns a response, and
  \<^verbatim>\<open>response.json()\<close> either raises or returns the parsed body; a response is modelled by
  what its \<^verbatim>\<open>json()\<close> does.
\<close>

type_synonym response = "exn + json"

record world =
  clock :: int
  httpx_post :: "string \<Rightarrow> (string \<rightharpoonup> string) \<Rightarrow> string \<Rightarrow> exn + response"

text \<open>What a call does besides returning: the request it sends and the log records it emits
  (\<^verbatim>\<open>logger.info\<close> with the parsed response, \<^verbatim>\<open>logger.critical\<close> with the exception).\<close>

datatype event =
    Post string "string \<rightharpoonup> string" string
  | Info json
  | Critical exn

definition translate_payload :: "TencentTranslate \<Rightarrow> string \<Rightarrow> string" where
  "translate_payload self text =
     json_dumps (JObj
       [(''SourceText'', JStr text),
        (''Source'', JStr (source_lang self)),
        (''Target'', JStr (target_lang self)),
        (''ProjectId'', JInt 0)])"

text \<open>
  The result is the trace of events and either the exception that leaves \<^verbatim>\<open>translate\<close>
  (\<open>Inl\<close>) or the value returned (\<open>Inr\<close>). Timestamp, date, payload and headers are computed
  before the \<^verbatim>\<open>try\<close>; an exception there leaves without a log record. Inside the \<^verbatim>\<open>try\<close>,
  every exception is logged at critical level and raised again.
\<close>

definition translate :: "hashlib \<Rightarrow> TencentTranslate \<Rightarrow> world \<Rightarrow> string \<Rightarrow> event list \<times> (exn + json)" where
  "translate L self w text =
     (let timestamp = clock w
      in case utc_date timestamp of
           Inl e \<Rightarrow> ([], Inl e)
         | Inr date \<Rightarrow>
            (let payload = translate_payload self text;
                 headers = prepare_headers L self payload timestamp date;
                 url = ''https://'' @ host self;
                 request = Post url headers payload
             in case httpx_post w url headers payload of
                  Inl e \<Rightarrow> ([request, Critical e], Inl e)
                | Inr response \<Rightarrow>
                   (case response of
                      Inl e \<Rightarrow> ([request, Critical e], Inl e)
                    | Inr res \<Rightarrow>
                       (case dict_get res ''Response'' (JObj []) of
                          Inl e \<Rightarrow> ([request, Info res, Critical e], Inl e)
                        | Inr r \<Rightarrow>
                           (case dict_get r ''TargetText'' (JStr ''Translation failed'') of
                              Inl e \<Rightarrow> ([request, Info res, Critical e], Inl e)
                            | Inr v \<Rightarrow> ([request, Info res], Inr v))))))"

subsection \<open>Shapes of a response, the signing algorithm as specified, example inputs\<close>

text \<open>The parsed body has the field \<^verbatim>\<open>Response.TargetText\<close>: it is a dict whose \<^verbatim>\<open>"Response"\<close> is a
  dict with the key \<^verbatim>\<open>"TargetText"\<close>.\<close>

definition has_target_text :: "json \<Rightarrow> bool" where
  "has_target_text res =
     (case res of
        JObj kvs \<Rightarrow>
          (case map_of kvs ''Response'' of
             Some (JObj r) \<Rightarrow> map_of r ''TargetText'' \<noteq> None
           | _ \<Rightarrow> False)
      | _ \<Rightarrow> False)"

text \<open>
  The TC3-HMAC-SHA256 signing steps written from their description alone (canonical
  headers, canonical request, credential scope, string to sign, key derivation, final
  signature), independent of the client object: the reference that \<^verbatim>\<open>_prepare_headers\<close> is
  compared with.
\<close>

definition tc3_canonical_headers :: "string \<Rightarrow> string \<Rightarrow> string" where
  "tc3_canonical_headers hst act =
     ''content-type:application/json; charset=utf-8\<newline>host:'' @ hst @
     ''\<newline>x-tc-action:'' @ lower act @ ''\<newline>''"

definition tc3_canonical_request :: "hashlib \<Rightarrow> string \<Rightarrow> string \<Rightarrow> string \<Rightarrow> string" where
  "tc3_canonical_request L hst act payload =
     join ''\<newline>'' [''POST'', ''/'', '''', tc3_canonical_headers hst act,
       ''content-type;host;x-tc-action'', hexdigest (sha256 L (utf8 payload))]"

definition tc3_credential_scope :: "string \<Rightarrow> string \<Rightarrow> string" where
  "tc3_credential_scope date srv = date @ ''/'' @ srv @ ''/tc3_request''"

definition tc3_string_to_sign :: "hashlib \<Rightarrow> string \<Rightarrow> int \<Rightarrow> string \<Rightarrow> string \<Rightarrow> string" where
  "tc3_string_to_sign L alg timestamp scope creq =
     join ''\<newline>'' [alg, str_int timestamp, scope, hexdigest (sha256 L (utf8 creq))]"

definition tc3_signing_key :: "hashlib \<Rightarrow> string \<Rightarrow> string \<Rightarrow> string \<Rightarrow> byte list" where
  "tc3_signing_key L skey date srv =
     (let k1 = hmac_sha256 L (utf8 (''TC3'' @ skey)) (utf8 date);
          k2 = hmac_sha256 L k1 (utf8 srv);
          k3 = hmac_sha256 L k2 (utf8 ''tc3_request'')
      in k3)"

definition tc3_signature :: "hashlib \<Rightarrow> byte list \<Rightarrow> string \<Rightarrow> string" where
  "tc3_signature L k3 sts = hexdigest (hmac_sha256 L k3 (utf8 sts))"

text \<open>The payload of the round-trip scenario:
  \<^verbatim>\<open>{"SourceText":"hello","Source":"zh","Target":"ja","ProjectId":0}\<close>.\<close>

definition scenario_payload :: string where
  "scenario_payload =
     ''{'' @ dq @ ''SourceText'' @ dq @ '':'' @ dq @ ''hello'' @ dq @ '','' @
     dq @ ''Source'' @ dq @ '':'' @ dq @ ''zh'' @ dq @ '','' @
     dq @ ''Target'' @ dq @ '':'' @ dq @ ''ja'' @ dq @ '','' @
     dq @ ''ProjectId'' @ dq @ '':0}''"

text \<open>
  Inputs for closed examples. The results below hold for every \<open>hashlib\<close>; where an example
  has to name one, it names \<open>example_hashlib\<close>, which cuts or pads its input to 32 bytes.
  It is not SHA-256, and no example depends on what it computes. \<open>example_world\<close> is a
  world whose clock reads 1700000000 and whose HTTP client answers every request with the
  given outcome.
\<close>

definition example_hashlib :: hashlib where
  "example_hashlib =
     \<lparr> sha256 = (\<lambda>data. take 32 (data @ replicate 32 0)),
       hmac_sha256 = (\<lambda>key msg. take 32 (key @ msg @ replicate 32 0)) \<rparr>"

definition example_world :: "(exn + response) \<Rightarrow> world" where
  "example_world outcome = \<lparr> clock = 1700000000, httpx_post = (\<lambda>url headers data. outcome) \<rparr>"

section \<open>Properties\<close>

subsection \<open>Key derivation\<close>

text \<open>
  C1. For every secret key, date string and service name, \<^verbatim>\<open>create_signature(date, service)\<close>
  returns k3, where k1 is HMAC-SHA256 with key the UTF-8 bytes of "TC3" followed by the
  secret key and message the date, k2 is HMAC-SHA256 with key k1 and message the service
  name, and k3 is HMAC-SHA256 with key k2 and message "tc3_request"; each digest is the raw
  byte string that keys the next.
\<close>

theorem create_signature_chain:
  "create_signature L self date srv =
     hmac_sha256 L
       (hmac_sha256 L
          (hmac_sha256 L (utf8 (''TC3'' @ secret_key self)) (utf8 date))
          (utf8 srv))
       (utf8 ''tc3_request'')"
  by (simp add: create_signature_def sign_def)

subsection \<open>Digests are lowercase hexadecimal\<close>

lemma length_hex_chars: "length hex_chars = 16"
  by (simp add: hex_chars_def)

lemma hex_digit_lowercase: "hex_digit n \<in> set hex_chars"
  unfolding hex_digit_def by (rule nth_mem) (simp add: length_hex_chars)

lemma hexdigest_lowercase: "set (hexdigest bs) \<subseteq> set hex_chars"
  by (auto simp: hexdigest_def hex_byte_def hex_digit_lowercase)

lemma length_hexdigest: "length (hexdigest bs) = 2 * length bs"
  by (induction bs) (simp_all add: hexdigest_def hex_byte_def)

subsection \<open>The canonical request\<close>

lemma lower_TextTranslate: "lower ''TextTranslate'' = ''texttranslate''"
  by (simp add: lower_def lower_char_def upper_chars_def lower_chars_def)

text \<open>
  C2. For every payload string, the canonical request that is hashed for signing is the
  newline-joined sequence of the literal "POST", the URI path "/", the empty query string,
  the canonical headers string
  "content-type:application/json; charset=utf-8\nhost:<host>\nx-tc-action:<lowercased action>\n",
  the signed-headers list "content-type;host;x-tc-action", and the lowercase hexadecimal
  SHA-256 digest of the UTF-8 bytes of the payload.
\<close>

theorem canonical_request_layout:
  "canonical_headers self =
     ''content-type:application/json; charset=utf-8\<newline>host:'' @ host self @
     ''\<newline>x-tc-action:'' @ lower (action self) @ ''\<newline>''
   \<and> canonical_request L self payload =
     ''POST'' @ ''\<newline>'' @ ''/'' @ ''\<newline>'' @ [] @ ''\<newline>'' @
     canonical_headers self @ ''\<newline>'' @
     ''content-type;host;x-tc-action'' @ ''\<newline>'' @
     hexdigest (sha256 L (utf8 payload))
   \<and> hashed_canonical_request L self payload =
     hexdigest (sha256 L (utf8 (canonical_request L self payload)))"
  by (simp add: canonical_headers_def canonical_request_def ct_def canonical_uri_def
      canonical_querystring_def signed_headers_def hashed_request_payload_def
      hashed_canonical_request_def)

subsection \<open>The string to sign and the Authorization header\<close>

lemma prepare_headers_Authorization:
  "prepare_headers L self payload timestamp date ''Authorization'' =
     Some (authorization L self payload timestamp date)"
  by (simp add: prepare_headers_def Let_def)

lemma prepare_headers_Timestamp:
  "prepare_headers L self payload timestamp date ''X-TC-Timestamp'' = Some (str_int timestamp)"
  by (simp add: prepare_headers_def Let_def)

text \<open>
  C3. For every payload, timestamp and date, the string to sign is the newline-joined
  sequence of the algorithm identifier ("TC3-HMAC-SHA256" for a constructed client), the
  decimal Unix timestamp, the credential scope "<date>/<service>/tc3_request" and the
  lowercase hex SHA-256 digest of the canonical request; and the Authorization header is
  "<algorithm> Credential=<secret_id>/<credential_scope>, SignedHeaders=<signed_headers>,
  Signature=<hex signature>", where the hex signature is the lowercase hex HMAC-SHA256 of
  the string to sign, keyed with the derived key k3.
\<close>

theorem authorization_layout:
  "string_to_sign L self payload timestamp date =
     algorithm self @ ''\<newline>'' @ str_int timestamp @ ''\<newline>'' @
     (date @ ''/'' @ service self @ ''/tc3_request'') @ ''\<newline>'' @
     hexdigest (sha256 L (utf8 (canonical_request L self payload)))
   \<and> prepare_headers L self payload timestamp date ''Authorization'' =
     Some (algorithm self @ '' Credential='' @ secret_id self @ ''/'' @
           (date @ ''/'' @ service self @ ''/tc3_request'') @
           '', SignedHeaders='' @ ''content-type;host;x-tc-action'' @
           '', Signature='' @
           hexdigest (hmac_sha256 L (create_signature L self date (service self))
                        (utf8 (string_to_sign L self payload timestamp date))))
   \<and> algorithm (init sid skey tok reg src tgt) = ''TC3-HMAC-SHA256''"
  by (simp add: prepare_headers_Authorization authorization_def string_to_sign_def
      credential_scope_def hashed_canonical_request_def signature_def signed_headers_def
      init_def)

subsection \<open>The header map\<close>

text \<open>
  C6. The header map returned by \<^verbatim>\<open>_prepare_headers\<close> always contains Authorization,
  Content-Type, Host, X-TC-Action, X-TC-Timestamp (the decimal seconds value used in
  signing) and X-TC-Version; it contains X-TC-Region if and only if the configured region is
  non-empty, and X-TC-Token if and only if a non-empty session token was supplied.
\<close>

theorem prepare_headers_keys:
  "dom (prepare_headers L self payload timestamp date) =
     {''Authorization'', ''Content-Type'', ''Host'', ''X-TC-Action'', ''X-TC-Timestamp'',
      ''X-TC-Version''}
     \<union> (if region self \<noteq> [] then {''X-TC-Region''} else {})
     \<union> (if token self \<noteq> [] then {''X-TC-Token''} else {})
   \<and> prepare_headers L self payload timestamp date ''X-TC-Timestamp'' = Some (str_int timestamp)
   \<and> (''X-TC-Region'' \<in> dom (prepare_headers L self payload timestamp date)) = (region self \<noteq> [])
   \<and> (''X-TC-Token'' \<in> dom (prepare_headers L self payload timestamp date)) = (token self \<noteq> [])"
  by (auto simp: prepare_headers_def Let_def)

subsection \<open>Token and region do not enter the signature\<close>

text \<open>
  C10. The Authorization header value does not depend on the session token or the region:
  two clients that differ only in token and region get the same Authorization value from
  \<^verbatim>\<open>_prepare_headers\<close> for the same payload, timestamp and date, and the same derived key,
  canonical request and string to sign.
\<close>

theorem authorization_independent_of_token_region:
  "prepare_headers L (self\<lparr>token := tok, region := reg\<rparr>) payload timestamp date ''Authorization'' =
     prepare_headers L self payload timestamp date ''Authorization''
   \<and> create_signature L (self\<lparr>token := tok, region := reg\<rparr>) date srv =
     create_signature L self date srv
   \<and> canonical_request L (self\<lparr>token := tok, region := reg\<rparr>) payload =
     canonical_request L self payload
   \<and> string_to_sign L (self\<lparr>token := tok, region := reg\<rparr>) payload timestamp date =
     string_to_sign L self payload timestamp date"
  by (simp add: prepare_headers_Authorization authorization_def string_to_sign_def
      credential_scope_def hashed_canonical_request_def signature_def canonical_request_def
      canonical_headers_def create_signature_def)

subsection \<open>Evaluating the model\<close>

lemma utc_date_1700000000: "utc_date 1700000000 = Inr ''2023-11-14''"
  by (simp add: utc_date_def ord2ymd_def Let_def is_leap_def days_before_month_def days_in_month_def
      zfill_def str_int_def digits10.simps digit_char_def)

lemma utc_date_epoch: "utc_date 0 = Inr ''1970-01-01''"
  by (simp add: utc_date_def ord2ymd_def Let_def is_leap_def days_before_month_def days_in_month_def
      zfill_def str_int_def digits10.simps digit_char_def)

lemma utc_date_leap_day: "utc_date 1709164800 = Inr ''2024-02-29''"
  by (simp add: utc_date_def ord2ymd_def Let_def is_leap_def days_before_month_def days_in_month_def
      zfill_def str_int_def digits10.simps digit_char_def)

lemma utc_date_year_end: "utc_date 1735689599 = Inr ''2024-12-31''"
  by (simp add: utc_date_def ord2ymd_def Let_def is_leap_def days_before_month_def days_in_month_def
      zfill_def str_int_def digits10.simps digit_char_def)

lemma utc_date_before_epoch: "utc_date (- 1) = Inr ''1969-12-31''"
  by (simp add: utc_date_def ord2ymd_def Let_def is_leap_def days_before_month_def days_in_month_def
      zfill_def str_int_def digits10.simps digit_char_def)

lemma utc_date_last: "utc_date 253402300799 = Inr ''9999-12-31''"
  by (simp add: utc_date_def ord2ymd_def Let_def is_leap_def days_before_month_def days_in_month_def
      zfill_def str_int_def digits10.simps digit_char_def)

lemma utc_date_out_of_range: "utc_date 253402300800 = Inl (ValueError ''year out of range'')"
  by (simp add: utc_date_def ord2ymd_def Let_def is_leap_def days_before_month_def days_in_month_def
      zfill_def str_int_def digits10.simps digit_char_def)

lemma str_int_1700000000: "str_int 1700000000 = ''1700000000''"
  by (simp add: str_int_def digits10.simps digit_char_def)

lemma utf8_example: "utf8 [CHR ''a'', CHR 0xE9, CHR 0xFF, CHR 0x80] = [0x61, 0xC3, 0xA9, 0xC3, 0xBF, 0xC2, 0x80]"
  by (simp add: utf8_def utf8_char_def)

lemma hexdigest_example: "hexdigest [0x00, 0xAB, 0xFF, 0x10] = ''00abff10''"
  by (simp add: hexdigest_def hex_byte_def hex_digit_def hex_chars_def)

text \<open>What \<^verbatim>\<open>translate\<close> itself sends for the text "hello" has the separators of
  \<^verbatim>\<open>json.dumps\<close>, \<^verbatim>\<open>", "\<close> and \<^verbatim>\<open>": "\<close>.\<close>

lemma translate_payload_hello:
  "translate_payload (init_default sid skey) ''hello'' =
     ''{'' @ dq @ ''SourceText'' @ dq @ '': '' @ dq @ ''hello'' @ dq @ '', '' @
     dq @ ''Source'' @ dq @ '': '' @ dq @ ''zh'' @ dq @ '', '' @
     dq @ ''Target'' @ dq @ '': '' @ dq @ ''ja'' @ dq @ '', '' @
     dq @ ''ProjectId'' @ dq @ '': 0}''"
  by (simp add: translate_payload_def init_default_def init_def encode_str_def escape_char_def
      dq_def str_int_def digits10.simps digit_char_def)

subsection \<open>The date that is signed and the timestamp that is sent\<close>

lemma translate_raises_before_request:
  "utc_date (clock w) = Inl e \<Longrightarrow> translate L self w src_text = ([], Inl e)"
  by (simp add: translate_def)

text \<open>
  C4. For every call to \<^verbatim>\<open>translate\<close>, the date string used in the credential scope is the
  UTC calendar date (YYYY-MM-DD) of the same Unix timestamp whose decimal rendering is
  placed in the X-TC-Timestamp header of that request: the clock is read once, and the
  request that is sent carries the headers prepared from that reading and its date.
\<close>

theorem translate_date_of_sent_timestamp:
  assumes "utc_date (clock w) = Inr date"
  shows "(\<exists>rest. fst (translate L self w src_text) =
            Post (''https://'' @ host self)
              (prepare_headers L self (translate_payload self src_text) (clock w) date)
              (translate_payload self src_text) # rest)
         \<and> prepare_headers L self (translate_payload self src_text) (clock w) date ''X-TC-Timestamp'' =
             Some (str_int (clock w))
         \<and> prepare_headers L self (translate_payload self src_text) (clock w) date ''Authorization'' =
             Some (algorithm self @ '' Credential='' @ secret_id self @ ''/'' @
                   (date @ ''/'' @ service self @ ''/tc3_request'') @
                   '', SignedHeaders='' @ signed_headers @
                   '', Signature='' @ signature L self (translate_payload self src_text) (clock w) date)
         \<and> string_to_sign L self (translate_payload self src_text) (clock w) date =
             algorithm self @ ''\<newline>'' @ str_int (clock w) @ ''\<newline>'' @
             (date @ ''/'' @ service self @ ''/tc3_request'') @ ''\<newline>'' @
             hashed_canonical_request L self (translate_payload self src_text)"
  using assms
  by (auto simp: translate_def Let_def prepare_headers_Authorization prepare_headers_Timestamp
      authorization_def string_to_sign_def credential_scope_def split: sum.splits)

theorem translate_date_of_sent_timestamp_witness:
  "utc_date (clock (example_world (Inl (TransportError ''ConnectError'')))) = Inr ''2023-11-14''
   \<and> prepare_headers example_hashlib (init_default ''AKID'' ''secret'')
        (translate_payload (init_default ''AKID'' ''secret'') ''hello'')
        (clock (example_world (Inl (TransportError ''ConnectError'')))) ''2023-11-14'' ''X-TC-Timestamp'' =
       Some ''1700000000''"
proof -
  have h: "utc_date (clock (example_world (Inl (TransportError ''ConnectError'')))) = Inr ''2023-11-14''"
    by (simp add: example_world_def utc_date_1700000000)
  have "clock (example_world (Inl (TransportError ''ConnectError''))) = 1700000000"
    by (simp add: example_world_def)
  with h translate_date_of_sent_timestamp [OF h, of example_hashlib "init_default ''AKID'' ''secret''" "''hello''"]
  show ?thesis by (simp add: str_int_1700000000)
qed

subsection \<open>The round-trip scenario\<close>

text \<open>
  C5. For secret id "AKID", secret key "secret", timestamp 1700000000 and the payload
  \<^verbatim>\<open>{"SourceText":"hello","Source":"zh","Target":"ja","ProjectId":0}\<close>, the derived UTC date
  is "2023-11-14", and the canonical request, the string to sign and the final hex
  signature of the signing pipeline equal the values of the reference TC3-HMAC-SHA256
  algorithm on the same inputs, for whatever digests the library computes.
\<close>

theorem signing_roundtrip_scenario:
  "utc_date 1700000000 = Inr ''2023-11-14''
   \<and> canonical_request L (init ''AKID'' ''secret'' tok reg src tgt) scenario_payload =
       tc3_canonical_request L ''tmt.tencentcloudapi.com'' ''TextTranslate'' scenario_payload
   \<and> string_to_sign L (init ''AKID'' ''secret'' tok reg src tgt) scenario_payload 1700000000 ''2023-11-14'' =
       tc3_string_to_sign L ''TC3-HMAC-SHA256'' 1700000000 (tc3_credential_scope ''2023-11-14'' ''tmt'')
         (tc3_canonical_request L ''tmt.tencentcloudapi.com'' ''TextTranslate'' scenario_payload)
   \<and> signature L (init ''AKID'' ''secret'' tok reg src tgt) scenario_payload 1700000000 ''2023-11-14'' =
       tc3_signature L (tc3_signing_key L ''secret'' ''2023-11-14'' ''tmt'')
         (tc3_string_to_sign L ''TC3-HMAC-SHA256'' 1700000000 (tc3_credential_scope ''2023-11-14'' ''tmt'')
           (tc3_canonical_request L ''tmt.tencentcloudapi.com'' ''TextTranslate'' scenario_payload))
   \<and> canonical_request L (init ''AKID'' ''secret'' tok reg src tgt) scenario_payload =
       ''POST\<newline>/\<newline>\<newline>content-type:application/json; charset=utf-8\<newline>host:tmt.tencentcloudapi.com\<newline>x-tc-action:texttranslate\<newline>\<newline>content-type;host;x-tc-action\<newline>'' @
       hexdigest (sha256 L (utf8 scenario_payload))
   \<and> string_to_sign L (init ''AKID'' ''secret'' tok reg src tgt) scenario_payload 1700000000 ''2023-11-14'' =
       ''TC3-HMAC-SHA256\<newline>1700000000\<newline>2023-11-14/tmt/tc3_request\<newline>'' @
       hexdigest (sha256 L (utf8 (canonical_request L (init ''AKID'' ''secret'' tok reg src tgt) scenario_payload)))
   \<and> prepare_headers L (init ''AKID'' ''secret'' tok reg src tgt) scenario_payload 1700000000 ''2023-11-14''
        ''Authorization'' =
       Some (''TC3-HMAC-SHA256 Credential=AKID/2023-11-14/tmt/tc3_request, SignedHeaders=content-type;host;x-tc-action, Signature='' @
             signature L (init ''AKID'' ''secret'' tok reg src tgt) scenario_payload 1700000000 ''2023-11-14'')"
  by (simp add: utc_date_1700000000 lower_TextTranslate str_int_1700000000 init_def
      prepare_headers_Authorization authorization_def
      canonical_request_def canonical_headers_def ct_def
      canonical_uri_def canonical_querystring_def signed_headers_def hashed_request_payload_def
      string_to_sign_def credential_scope_def hashed_canonical_request_def signature_def
      create_signature_def sign_def tc3_canonical_request_def tc3_canonical_headers_def
      tc3_credential_scope_def tc3_string_to_sign_def tc3_signing_key_def tc3_signature_def)

subsection \<open>Responses without the expected field\<close>

text \<open>
  C7, as the code has it. For every response whose body parses to a JSON object that has no
  "Response" key, or whose "Response" value is an object with no "TargetText" key,
  \<^verbatim>\<open>translate\<close> returns the literal fallback string "Translation failed" and does not raise;
  it logs the parsed body at info level and nothing else.
\<close>

theorem translate_fallback:
  assumes "utc_date (clock w) = Inr date"
    and "payload = translate_payload self src_text"
    and "headers = prepare_headers L self payload (clock w) date"
    and "httpx_post w (''https://'' @ host self) headers payload = Inr (Inr (JObj kvs))"
    and "map_of kvs ''Response'' = None
         \<or> (\<exists>r. map_of kvs ''Response'' = Some (JObj r) \<and> map_of r ''TargetText'' = None)"
  shows "translate L self w src_text =
           ([Post (''https://'' @ host self) headers payload, Info (JObj kvs)],
            Inr (JStr ''Translation failed''))"
  using assms by (auto simp: translate_def Let_def)

theorem translate_fallback_witness:
  "snd (translate example_hashlib (init_default ''AKID'' ''secret'')
          (example_world (Inr (Inr (JObj [(''Response'', JObj [(''Error'', JStr ''AuthFailure'')])]))))
          ''hello'')
     = Inr (JStr ''Translation failed'')"
  using translate_fallback [where L = example_hashlib and self = "init_default ''AKID'' ''secret''"
      and w = "example_world (Inr (Inr (JObj [(''Response'', JObj [(''Error'', JStr ''AuthFailure'')])])))"
      and src_text = "''hello''" and date = "''2023-11-14''"
      and kvs = "[(''Response'', JObj [(''Error'', JStr ''AuthFailure'')])]", OF _ refl refl]
  by (simp add: example_world_def utc_date_1700000000)

text \<open>
  C7 as stated fails: a body that is a JSON object lacking \<^verbatim>\<open>Response.TargetText\<close> because its
  "Response" is \<^verbatim>\<open>null\<close> makes \<^verbatim>\<open>translate\<close> raise \<^verbatim>\<open>AttributeError\<close>.
\<close>

theorem translate_fallback_counterexample:
  "\<not> has_target_text (JObj [(''Response'', JNull)])
   \<and> snd (translate example_hashlib (init_default ''AKID'' ''secret'')
            (example_world (Inr (Inr (JObj [(''Response'', JNull)])))) ''hello'')
       = Inl (AttributeError ''NoneType'')"
  by (simp add: has_target_text_def translate_def Let_def example_world_def utc_date_1700000000)

text \<open>
  C8, as the code has it. For every response body that parses as JSON, the result of
  \<^verbatim>\<open>translate\<close> is decided by the shape of the body: an object with no "Response" key, or
  whose "Response" is an object with no "TargetText" key, gives the fallback string; an
  object whose "Response" is an object with a "TargetText" key gives the value stored
  there, whatever its type; a body that is not an object, or whose "Response" is present
  and not an object, makes \<^verbatim>\<open>.get\<close> raise \<^verbatim>\<open>AttributeError\<close>, which is logged at critical level
  after the info record and raised again.
\<close>

theorem translate_result_by_shape:
  assumes "utc_date (clock w) = Inr date"
    and "payload = translate_payload self src_text"
    and "headers = prepare_headers L self payload (clock w) date"
    and "httpx_post w (''https://'' @ host self) headers payload = Inr (Inr res)"
  shows "snd (translate L self w src_text) =
           (case res of
              JObj kvs \<Rightarrow>
                (case map_of kvs ''Response'' of
                   None \<Rightarrow> Inr (JStr ''Translation failed'')
                 | Some (JObj r) \<Rightarrow>
                     (case map_of r ''TargetText'' of
                        None \<Rightarrow> Inr (JStr ''Translation failed'')
                      | Some v \<Rightarrow> Inr v)
                 | Some x \<Rightarrow> Inl (AttributeError (type_name x)))
            | _ \<Rightarrow> Inl (AttributeError (type_name res)))
         \<and> fst (translate L self w src_text) =
           (case snd (translate L self w src_text) of
              Inl e \<Rightarrow> [Post (''https://'' @ host self) headers payload, Info res, Critical e]
            | Inr v \<Rightarrow> [Post (''https://'' @ host self) headers payload, Info res])"
  using assms by (auto simp: translate_def Let_def split: json.splits option.splits)

theorem translate_result_by_shape_witness:
  "snd (translate example_hashlib (init_default ''AKID'' ''secret'')
          (example_world (Inr (Inr (JObj [(''Response'', JObj [(''TargetText'', JStr ''konnichiwa'')])]))))
          ''hello'')
     = Inr (JStr ''konnichiwa'')"
  using translate_result_by_shape [where L = example_hashlib and self = "init_default ''AKID'' ''secret''"
      and w = "example_world (Inr (Inr (JObj [(''Response'', JObj [(''TargetText'', JStr ''konnichiwa'')])])))"
      and src_text = "''hello''" and date = "''2023-11-14''"
      and res = "JObj [(''Response'', JObj [(''TargetText'', JStr ''konnichiwa'')])]", OF _ refl refl]
  by (simp add: example_world_def utc_date_1700000000)

text \<open>
  C8 as stated fails: a body whose "Response" is a list makes \<^verbatim>\<open>translate\<close> raise, and a
  body whose \<^verbatim>\<open>Response.TargetText\<close> is a number makes it return that number, not the
  fallback string.
\<close>

theorem translate_shape_counterexample:
  "snd (translate example_hashlib (init_default ''AKID'' ''secret'')
          (example_world (Inr (Inr (JObj [(''Response'', JArr [JStr ''oops''])])))) ''hello'')
     = Inl (AttributeError ''list'')
   \<and> snd (translate example_hashlib (init_default ''AKID'' ''secret'')
          (example_world (Inr (Inr (JObj [(''Response'', JObj [(''TargetText'', JInt 5)])])))) ''hello'')
     = Inr (JInt 5)"
  by (simp add: translate_def Let_def example_world_def utc_date_1700000000)

subsection \<open>Failures of the HTTP call and of parsing\<close>

text \<open>
  C9. For every invocation of \<^verbatim>\<open>translate\<close> in which the HTTP call or the parsing of the
  response body raises an exception, \<^verbatim>\<open>translate\<close> logs the error at critical level and
  raises the same exception again: the call sends one request, emits one critical log
  record and ends with that exception; nothing is returned.
\<close>

theorem translate_reraises:
  assumes "utc_date (clock w) = Inr date"
    and "payload = translate_payload self src_text"
    and "headers = prepare_headers L self payload (clock w) date"
    and "httpx_post w (''https://'' @ host self) headers payload = Inl e
         \<or> httpx_post w (''https://'' @ host self) headers payload = Inr (Inl e)"
  shows "translate L self w src_text =
           ([Post (''https://'' @ host self) headers payload, Critical e], Inl e)"
  using assms by (auto simp: translate_def Let_def)

theorem translate_reraises_witness:
  "snd (translate example_hashlib (init_default ''AKID'' ''secret'')
          (example_world (Inr (Inl (JSONDecodeError ''Expecting value'')))) ''hello'')
     = Inl (JSONDecodeError ''Expecting value'')"
  using translate_reraises [where L = example_hashlib and self = "init_default ''AKID'' ''secret''"
      and w = "example_world (Inr (Inl (JSONDecodeError ''Expecting value'')))"
      and src_text = "''hello''" and date = "''2023-11-14''"
      and e = "JSONDecodeError ''Expecting value''", OF _ refl refl]
  by (simp add: example_world_def utc_date_1700000000)

end
